theory Spec2Isabelle
  imports Complex_Main "HOL-Library.Sublist"
begin

section \<open>Tables of resale transactions\<close>

text \<open>
  The dashboard of \<^verbatim>\<open>app.py\<close> works on a pandas table. A cell of the table is a string or a
  number as the API's JSON records give them, a timestamp once \<^verbatim>\<open>pd.to_datetime\<close> has
  run, or missing (\<^verbatim>\<open>None\<close>, \<^verbatim>\<open>NaN\<close>, \<^verbatim>\<open>NaT\<close>: what \<^verbatim>\<open>isna\<close> answers
  True for). Numbers are compared by value: the storage width and the rounding of a float are not
  modelled. A row maps column names to cells; the table keeps the list of its column names, and
  a row's value at a name outside that list is never read by the code.
\<close>

datatype timestamp = Timestamp (ts_year: int) (ts_month: nat) (ts_day: nat)

datatype cell = Str string | Num rat | Date timestamp | Missing

type_synonym row = "string \<Rightarrow> cell"

record dataframe =
  columns :: "string list"
  rows :: "row list"

datatype py_error = KeyError string | ValueError | TypeError | AttributeError

definition bind_result :: "'e + 'a \<Rightarrow> ('a \<Rightarrow> 'e + 'b) \<Rightarrow> 'e + 'b" where
  "bind_result m f = (case m of Inl e \<Rightarrow> Inl e | Inr x \<Rightarrow> f x)"

subsection \<open>The pandas operations the code calls\<close>

text \<open>
  How pandas reads a string as a number or as a date, and a number as a date, is the library's
  business: the three readers are parameters, and every theorem holds for each choice of them.
  A reader answers None where the library cannot read its input.
\<close>

record pandas =
  numeric_of_string :: "string \<Rightarrow> rat option"
  datetime_of_string :: "string \<Rightarrow> timestamp option"
  datetime_of_number :: "rat \<Rightarrow> timestamp option"

text \<open>
  \<^verbatim>\<open>pd.to_numeric(..., errors='coerce')\<close> on one cell: a number stays, a string is read, and
  what cannot be read as a number becomes missing. It never raises.
\<close>

fun to_numeric :: "pandas \<Rightarrow> cell \<Rightarrow> cell" where
  "to_numeric P (Str s) = (case numeric_of_string P s of Some v \<Rightarrow> Num v | None \<Rightarrow> Missing)"
| "to_numeric P (Num v) = Num v"
| "to_numeric P (Date d) = Missing"
| "to_numeric P Missing = Missing"

text \<open>
  \<^verbatim>\<open>pd.to_datetime\<close> with its default \<^verbatim>\<open>errors='raise'\<close>: a timestamp stays, a missing
  cell stays missing, and a string or number that cannot be read raises ValueError. The series
  version reads the cells in order and stops at the first one that raises.
\<close>

fun to_datetime :: "pandas \<Rightarrow> cell \<Rightarrow> py_error + cell" where
  "to_datetime P (Str s) =
     (case datetime_of_string P s of Some d \<Rightarrow> Inr (Date d) | None \<Rightarrow> Inl ValueError)"
| "to_datetime P (Num v) =
     (case datetime_of_number P v of Some d \<Rightarrow> Inr (Date d) | None \<Rightarrow> Inl ValueError)"
| "to_datetime P (Date d) = Inr (Date d)"
| "to_datetime P Missing = Inr Missing"

fun to_datetime_series :: "pandas \<Rightarrow> cell list \<Rightarrow> py_error + cell list" where
  "to_datetime_series P [] = Inr []"
| "to_datetime_series P (c # cs) =
     bind_result (to_datetime P c) (\<lambda>d.
     bind_result (to_datetime_series P cs) (\<lambda>ds. Inr (d # ds)))"

text \<open>\<^verbatim>\<open>.dt.year\<close> of a datetime series: the year of a timestamp, missing for \<^verbatim>\<open>NaT\<close>.\<close>

fun dt_year :: "cell \<Rightarrow> cell" where
  "dt_year (Date d) = Num (of_int (ts_year d))"
| "dt_year c = Missing"

text \<open>
  \<^verbatim>\<open>df[col]\<close> reads a column and raises KeyError for a name that is not a column;
  \<^verbatim>\<open>df[col] = values\<close> overwrites the column in place, or appends it as the last column when
  the name is new.
\<close>

definition column_values :: "dataframe \<Rightarrow> string \<Rightarrow> cell list" where
  "column_values df col = map (\<lambda>r. r col) (rows df)"

definition getitem :: "dataframe \<Rightarrow> string \<Rightarrow> py_error + cell list" where
  "getitem df col =
     (if col \<in> set (columns df) then Inr (column_values df col) else Inl (KeyError col))"

definition setitem :: "dataframe \<Rightarrow> string \<Rightarrow> cell list \<Rightarrow> dataframe" where
  "setitem df col vs =
     \<lparr>columns = (if col \<in> set (columns df) then columns df else columns df @ [col]),
      rows = map (\<lambda>(r, v). r(col := v)) (zip (rows df) vs)\<rparr>"

text \<open>
  \<^verbatim>\<open>df.dropna(subset=[col])\<close>: KeyError when the column is absent, otherwise the rows whose
  cell in that column is not missing, in their order.
\<close>

definition dropna :: "string \<Rightarrow> dataframe \<Rightarrow> py_error + dataframe" where
  "dropna col df =
     (if col \<in> set (columns df)
      then Inr (df\<lparr>rows := filter (\<lambda>r. r col \<noteq> Missing) (rows df)\<rparr>)
      else Inl (KeyError col))"

section \<open>The cleaner: \<^verbatim>\<open>clean_data\<close>\<close>

text \<open>
  \<^verbatim>\<open>clean_data\<close> works on a copy, so the caller's table is not changed: the model returns a
  new table. Its three steps are the type casting loop over \<^verbatim>\<open>cols_to_numeric\<close>, the year
  extraction, and the drop of rows without a price.
\<close>

definition cols_to_numeric :: "string list" where
  "cols_to_numeric = [''resale_price'', ''floor_area_sqm'']"

definition cast_column :: "pandas \<Rightarrow> dataframe \<Rightarrow> string \<Rightarrow> dataframe" where
  "cast_column P df col =
     (if col \<in> set (columns df)
      then setitem df col (map (to_numeric P) (column_values df col))
      else df)"

definition type_casting :: "pandas \<Rightarrow> dataframe \<Rightarrow> dataframe" where
  "type_casting P df = foldl (cast_column P) df cols_to_numeric"

definition year_extraction :: "pandas \<Rightarrow> dataframe \<Rightarrow> py_error + dataframe" where
  "year_extraction P df =
     (if ''month'' \<in> set (columns df)
      then bind_result (to_datetime_series P (column_values df ''month'')) (\<lambda>ds.
             let df1 = setitem df ''month'' ds
             in Inr (setitem df1 ''year'' (map dt_year (column_values df1 ''month''))))
      else Inr df)"

fun clean_data :: "pandas \<Rightarrow> dataframe option \<Rightarrow> py_error + dataframe option" where
  "clean_data P None = Inr None"
| "clean_data P (Some df) =
     bind_result (year_extraction P (type_casting P df)) (\<lambda>df2.
     bind_result (dropna ''resale_price'' df2) (\<lambda>df3. Inr (Some df3)))"

section \<open>The filters of \<^verbatim>\<open>run_dashboard\<close>\<close>

text \<open>
  The sidebar widgets are Streamlit's. What the user has set on them is an input of the model:
  the sample size, the selected towns, and the year range (read only when the year slider is
  drawn).
\<close>

record controls =
  records_to_analyze :: int
  selected_towns :: "cell list"
  year_range :: "int \<times> int"

text \<open>\<^verbatim>\<open>df.head(n)\<close>: the first n rows, or all but the last \<open>-n\<close> rows for a negative n.\<close>

definition head :: "int \<Rightarrow> dataframe \<Rightarrow> dataframe" where
  "head n df =
     df\<lparr>rows := (if 0 \<le> n then take (nat n) (rows df)
                 else take (length (rows df) - nat (- n)) (rows df))\<rparr>"

text \<open>\<^verbatim>\<open>df[mask]\<close> with a boolean series: the rows at which the mask is True.\<close>

definition boolean_index :: "dataframe \<Rightarrow> bool list \<Rightarrow> dataframe" where
  "boolean_index df flags = df\<lparr>rows := map fst (filter snd (zip (rows df) flags))\<rparr>"

text \<open>\<^verbatim>\<open>df.empty\<close>: an axis of length 0.\<close>

definition empty :: "dataframe \<Rightarrow> bool" where
  "empty df = (rows df = [] \<or> columns df = [])"

text \<open>
  \<^verbatim>\<open>sorted(current_df['town'].unique())\<close> compares the distinct towns with \<^verbatim>\<open><\<close>, which
  raises TypeError between values of different kinds and for \<^verbatim>\<open>None\<close>. The sorted list only
  fills the town selector, so the model keeps the set of options and the TypeError.
\<close>

fun comparable :: "cell \<Rightarrow> cell \<Rightarrow> bool" where
  "comparable (Str a) (Str b) = True"
| "comparable (Num a) (Num b) = True"
| "comparable (Date a) (Date b) = True"
| "comparable a b = False"

definition town_options :: "cell list \<Rightarrow> py_error + cell set" where
  "town_options towns =
     (if list_all (\<lambda>a. list_all (\<lambda>b. a = b \<or> comparable a b) towns) towns
      then Inr (set towns) else Inl TypeError)"

definition town_filter :: "cell list \<Rightarrow> dataframe \<Rightarrow> py_error + dataframe" where
  "town_filter selected current_df =
     (if selected \<noteq> []
      then bind_result (getitem current_df ''town'') (\<lambda>towns.
             Inr (boolean_index current_df (map (\<lambda>t. t \<in> set selected) towns)))
      else Inr current_df)"

text \<open>
  \<^verbatim>\<open>Series.min()\<close> and \<^verbatim>\<open>Series.max()\<close> skip missing cells and answer \<^verbatim>\<open>NaN\<close> when
  nothing is left; \<^verbatim>\<open>int(...)\<close> of \<^verbatim>\<open>NaN\<close> raises ValueError and otherwise truncates
  towards zero. \<^verbatim>\<open>clean_data\<close> derives year from month, so the year cells it produces are
  numbers or missing. A year column of strings or timestamps can only be one that the raw table
  already had while it had no month column; what pandas does with it differs between versions,
  and the model raises TypeError there.
\<close>

fun numbers :: "cell list \<Rightarrow> rat list" where
  "numbers [] = []"
| "numbers (Num v # cs) = v # numbers cs"
| "numbers (c # cs) = numbers cs"

fun numeric_or_missing :: "cell \<Rightarrow> bool" where
  "numeric_or_missing (Num v) = True"
| "numeric_or_missing Missing = True"
| "numeric_or_missing c = False"

definition series_min :: "cell list \<Rightarrow> py_error + cell" where
  "series_min cs =
     (if list_all numeric_or_missing cs
      then (case numbers cs of [] \<Rightarrow> Inr Missing | v # vs \<Rightarrow> Inr (Num (fold min vs v)))
      else Inl TypeError)"

definition series_max :: "cell list \<Rightarrow> py_error + cell" where
  "series_max cs =
     (if list_all numeric_or_missing cs
      then (case numbers cs of [] \<Rightarrow> Inr Missing | v # vs \<Rightarrow> Inr (Num (fold max vs v)))
      else Inl TypeError)"

fun py_int :: "cell \<Rightarrow> py_error + int" where
  "py_int (Num v) = Inr (if 0 \<le> v then \<lfloor>v\<rfloor> else \<lceil>v\<rceil>)"
| "py_int Missing = Inl ValueError"
| "py_int c = Inl TypeError"

text \<open>
  \<^verbatim>\<open>(year >= lo) & (year <= hi)\<close> on one cell of a numeric series: a comparison with
  \<^verbatim>\<open>NaN\<close> is False.
\<close>

fun year_between :: "int \<times> int \<Rightarrow> cell \<Rightarrow> bool" where
  "year_between (lo, hi) (Num v) = (of_int lo \<le> v \<and> v \<le> of_int hi)"
| "year_between (lo, hi) c = False"

text \<open>
  The year block draws the range slider when the years of \<^verbatim>\<open>filtered_df\<close> span more than
  one value, and an information line otherwise; without a year column it draws nothing.
\<close>

datatype year_widget = YearSlider int int | YearInfo int | NoYearWidget

definition year_bounds :: "dataframe \<Rightarrow> py_error + int \<times> int" where
  "year_bounds df =
     bind_result (getitem df ''year'') (\<lambda>years.
     bind_result (bind_result (series_min years) py_int) (\<lambda>min_year.
     bind_result (bind_result (series_max years) py_int) (\<lambda>max_year.
     Inr (min_year, max_year))))"

definition year_filter ::
  "dataframe \<Rightarrow> int \<times> int \<Rightarrow> dataframe \<Rightarrow> py_error + year_widget \<times> dataframe" where
  "year_filter clean_df chosen filtered_df =
     (if ''year'' \<in> set (columns clean_df)
      then bind_result (year_bounds filtered_df) (\<lambda>(min_year, max_year).
             if min_year < max_year
             then Inr (YearSlider min_year max_year,
                       boolean_index filtered_df
                         (map (year_between chosen) (column_values filtered_df ''year'')))
             else Inr (YearInfo min_year, filtered_df))
      else Inr (NoYearWidget, filtered_df))"

text \<open>Lines 86 to 113: from the cleaned table to \<^verbatim>\<open>filtered_df\<close>.\<close>

definition view_dataset :: "controls \<Rightarrow> dataframe \<Rightarrow> py_error + year_widget \<times> dataframe" where
  "view_dataset ctl clean_df =
     (let current_df = head (records_to_analyze ctl) clean_df
      in bind_result (getitem current_df ''town'') (\<lambda>towns.
         bind_result (town_options towns) (\<lambda>all_towns.
         bind_result (town_filter (selected_towns ctl) current_df) (\<lambda>filtered_df.
         year_filter clean_df (year_range ctl) filtered_df))))"

section \<open>The dashboard run\<close>

text \<open>
  \<^verbatim>\<open>Series.mean()\<close> skips missing cells, answers \<^verbatim>\<open>NaN\<close> when nothing is left and raises
  TypeError on a column that holds strings or timestamps.
\<close>

definition series_mean :: "cell list \<Rightarrow> py_error + cell" where
  "series_mean cs =
     (if list_all numeric_or_missing cs
      then (case numbers cs of [] \<Rightarrow> Inr Missing
            | v # vs \<Rightarrow> Inr (Num (sum_list (v # vs) / of_nat (length (v # vs)))))
      else Inl TypeError)"

record metrics =
  avg_price :: cell
  avg_size :: cell
  transactions :: nat

definition summary :: "dataframe \<Rightarrow> py_error + metrics" where
  "summary filtered_df =
     bind_result (bind_result (getitem filtered_df ''resale_price'') series_mean) (\<lambda>price.
     bind_result (bind_result (getitem filtered_df ''floor_area_sqm'') series_mean) (\<lambda>area.
     Inr \<lparr>avg_price = price, avg_size = area, transactions = length (rows filtered_df)\<rparr>))"

text \<open>
  A run ends in one of three ways: \<^verbatim>\<open>st.stop()\<close> after a failed or empty load, the warning
  "No data found for these filters." followed by \<^verbatim>\<open>st.stop()\<close>, or the rendered page: the
  three metrics and \<^verbatim>\<open>filtered_df\<close>, from which the chart and the raw data table are drawn.
  The chart has its own \<^verbatim>\<open>try\<close> and never ends the run, so it is not part of the outcome.
  An exception that nothing catches is the \<open>Inl\<close> result.
\<close>

datatype outcome = Halted | NoData | Rendered year_widget metrics dataframe

definition run_dashboard :: "pandas \<Rightarrow> controls \<Rightarrow> dataframe option \<Rightarrow> py_error + outcome" where
  "run_dashboard P ctl full_df =
     (if full_df = None \<or> empty (the full_df) then Inr Halted
      else bind_result (clean_data P full_df) (\<lambda>cleaned.
             case cleaned of
               None \<Rightarrow> Inl AttributeError
             | Some clean_df \<Rightarrow>
                 bind_result (view_dataset ctl clean_df) (\<lambda>(widget, filtered_df).
                 if empty filtered_df then Inr NoData
                 else bind_result (summary filtered_df) (\<lambda>m.
                        Inr (Rendered widget m filtered_df)))))"

section \<open>The fetcher: \<^verbatim>\<open>load_all_data\<close>\<close>

text \<open>
  The reply of the remote service is the input: either the request fails on the network, or a
  response arrives with a status code and a body that is JSON or not. \<^verbatim>\<open>requests.get\<close>,
  \<^verbatim>\<open>raise_for_status\<close> (an error for the codes 400 to 599) and \<^verbatim>\<open>response.json()\<close> raise
  subclasses of \<^verbatim>\<open>RequestException\<close> (for \<^verbatim>\<open>response.json()\<close> since requests 2.27);
  subscripting the decoded body raises KeyError or TypeError, which are not.
  \<^verbatim>\<open>pd.DataFrame\<close> is a parameter of the model. The memoisation by \<^verbatim>\<open>st.cache_data\<close> does
  not change what a call returns and is left out.
\<close>

datatype json =
  JNull | JBool bool | JNum rat | JStr string | JArr "json list" | JObj "(string \<times> json) list"

datatype reply = NoReply | Response int "json option"

datatype request_exception = ConnectionError | HTTPError | JSONDecodeError

datatype exn = Request request_exception | Python py_error

datatype 'df loaded = Dataset 'df | FetchFailure request_exception

definition requests_get :: "reply \<Rightarrow> exn + int \<times> json option" where
  "requests_get r = (case r of NoReply \<Rightarrow> Inl (Request ConnectionError)
                     | Response status body \<Rightarrow> Inr (status, body))"

definition raise_for_status :: "int \<Rightarrow> exn + unit" where
  "raise_for_status status =
     (if 400 \<le> status \<and> status < 600 then Inl (Request HTTPError) else Inr ())"

definition response_json :: "json option \<Rightarrow> exn + json" where
  "response_json body = (case body of None \<Rightarrow> Inl (Request JSONDecodeError) | Some j \<Rightarrow> Inr j)"

fun subscript :: "json \<Rightarrow> string \<Rightarrow> exn + json" where
  "subscript (JObj members) key =
     (case map_of members key of Some v \<Rightarrow> Inr v | None \<Rightarrow> Inl (Python (KeyError key)))"
| "subscript j key = Inl (Python TypeError)"

definition fetch :: "(json \<Rightarrow> py_error + 'df) \<Rightarrow> reply \<Rightarrow> exn + 'df" where
  "fetch DataFrame r =
     bind_result (requests_get r) (\<lambda>(status, body).
     bind_result (raise_for_status status) (\<lambda>u.
     bind_result (response_json body) (\<lambda>data_packet.
     bind_result (subscript data_packet ''result'') (\<lambda>result.
     bind_result (subscript result ''records'') (\<lambda>records.
     case DataFrame records of Inl e \<Rightarrow> Inl (Python e) | Inr df \<Rightarrow> Inr df)))))"

text \<open>
  The \<^verbatim>\<open>except\<close> clause catches \<^verbatim>\<open>RequestException\<close> only: it shows the error and returns
  \<^verbatim>\<open>None\<close> (\<open>FetchFailure\<close>, with the exception its message is made of). Any other
  exception leaves the function.
\<close>

definition load_all_data :: "(json \<Rightarrow> py_error + 'df) \<Rightarrow> reply \<Rightarrow> py_error + 'df loaded" where
  "load_all_data DataFrame r =
     (case fetch DataFrame r of
        Inr df \<Rightarrow> Inr (Dataset df)
      | Inl (Request e) \<Rightarrow> Inr (FetchFailure e)
      | Inl (Python e) \<Rightarrow> Inl e)"

section \<open>Sample data\<close>

text \<open>
  Readers for the examples: a string of decimal digits is a number, and \<^verbatim>\<open>YYYY-MM\<close> is the
  first day of that month. On the strings used below they agree with pandas.
\<close>

definition digit_of :: "char \<Rightarrow> nat option" where
  "digit_of c =
     (let n = (of_char c :: nat) in if 48 \<le> n \<and> n \<le> 57 then Some (n - 48) else None)"

fun read_digits :: "nat \<Rightarrow> string \<Rightarrow> nat option" where
  "read_digits acc [] = Some acc"
| "read_digits acc (c # cs) =
     (case digit_of c of None \<Rightarrow> None | Some d \<Rightarrow> read_digits (10 * acc + d) cs)"

definition read_nat :: "string \<Rightarrow> nat option" where
  "read_nat s = (if s = [] then None else read_digits 0 s)"

definition read_month :: "string \<Rightarrow> timestamp option" where
  "read_month s =
     (if length s = 7 \<and> s ! 4 = CHR ''-''
      then (case (read_nat (take 4 s), read_nat (drop 5 s)) of
              (Some y, Some m) \<Rightarrow>
                if 1 \<le> m \<and> m \<le> 12 then Some (Timestamp (int y) m 1) else None
            | _ \<Rightarrow> None)
      else None)"

definition sample_pandas :: pandas where
  "sample_pandas =
     \<lparr>numeric_of_string = (\<lambda>s. map_option of_nat (read_nat s)),
      datetime_of_string = read_month,
      datetime_of_number = (\<lambda>v. None)\<rparr>"

definition record_row :: "(string \<times> cell) list \<Rightarrow> row" where
  "record_row kvs col = (case map_of kvs col of Some v \<Rightarrow> v | None \<Rightarrow> Missing)"

definition towns_only :: dataframe where
  "towns_only = \<lparr>columns = [''town''], rows = [record_row [(''town'', Str ''BEDOK'')]]\<rparr>"

definition three_towns :: dataframe where
  "three_towns =
     \<lparr>columns = [''town''],
      rows = [record_row [(''town'', Str ''BEDOK'')],
              record_row [(''town'', Str ''TAMPINES'')],
              record_row [(''town'', Str ''BEDOK'')]]\<rparr>"

section \<open>The cleaner, row by row\<close>

text \<open>
  For the proofs: what the three column steps of \<^verbatim>\<open>clean_data\<close> do to one row, given the
  column names of the table, and the part of a row that lies outside the four columns the
  cleaner writes.
\<close>

definition cast_cell :: "pandas \<Rightarrow> string list \<Rightarrow> string \<Rightarrow> row \<Rightarrow> row" where
  "cast_cell P cols col r = (if col \<in> set cols then r(col := to_numeric P (r col)) else r)"

definition date_row :: "pandas \<Rightarrow> string list \<Rightarrow> row \<Rightarrow> row" where
  "date_row P cols r =
     (if ''month'' \<in> set cols
      then (case to_datetime P (r ''month'') of
              Inr d \<Rightarrow> r(''month'' := d, ''year'' := dt_year d)
            | Inl e \<Rightarrow> r)
      else r)"

definition clean_row :: "pandas \<Rightarrow> string list \<Rightarrow> row \<Rightarrow> row" where
  "clean_row P cols r =
     date_row P cols (cast_cell P cols ''floor_area_sqm'' (cast_cell P cols ''resale_price'' r))"

definition core_columns :: "string list" where
  "core_columns = [''resale_price'', ''floor_area_sqm'', ''month'', ''year'']"

definition passthrough :: "row \<Rightarrow> row" where
  "passthrough r col = (if col \<in> set core_columns then Missing else r col)"

text \<open>
  The raw table of three records used as the running example: the price of the second record
  is not a number.
\<close>

definition scenario :: dataframe where
  "scenario =
     \<lparr>columns = [''town'', ''flat_type'', ''month'', ''resale_price'', ''floor_area_sqm''],
      rows =
        [record_row [(''town'', Str ''BEDOK''), (''flat_type'', Str ''3 ROOM''),
           (''month'', Str ''2023-05''), (''resale_price'', Str ''450000''),
           (''floor_area_sqm'', Str ''65'')],
         record_row [(''town'', Str ''BEDOK''), (''flat_type'', Str ''4 ROOM''),
           (''month'', Str ''2023-06''), (''resale_price'', Str ''not_a_number''),
           (''floor_area_sqm'', Str ''90'')],
         record_row [(''town'', Str ''TAMPINES''), (''flat_type'', Str ''3 ROOM''),
           (''month'', Str ''2022-01''), (''resale_price'', Str ''380000''),
           (''floor_area_sqm'', Str ''68'')]]\<rparr>"

text \<open>
  The cleaned form of the running example, row by row, and a raw table whose only record has a
  price that is not a number.
\<close>

definition bedok_2023 :: row where
  "bedok_2023 =
     record_row [(''town'', Str ''BEDOK''), (''flat_type'', Str ''3 ROOM''),
       (''month'', Date (Timestamp 2023 5 1)), (''resale_price'', Num 450000),
       (''floor_area_sqm'', Num 65), (''year'', Num 2023)]"

definition tampines_2022 :: row where
  "tampines_2022 =
     record_row [(''town'', Str ''TAMPINES''), (''flat_type'', Str ''3 ROOM''),
       (''month'', Date (Timestamp 2022 1 1)), (''resale_price'', Num 380000),
       (''floor_area_sqm'', Num 68), (''year'', Num 2022)]"

definition cleaned_scenario :: dataframe where
  "cleaned_scenario =
     \<lparr>columns = [''town'', ''flat_type'', ''month'', ''resale_price'', ''floor_area_sqm'',
                 ''year''],
      rows = [bedok_2023, tampines_2022]\<rparr>"

definition unpriced :: dataframe where
  "unpriced =
     \<lparr>columns = [''town'', ''flat_type'', ''month'', ''resale_price'', ''floor_area_sqm''],
      rows =
        [record_row [(''town'', Str ''BEDOK''), (''flat_type'', Str ''4 ROOM''),
           (''month'', Str ''2023-06''), (''resale_price'', Str ''not_a_number''),
           (''floor_area_sqm'', Str ''90'')]]\<rparr>"

text \<open>The one row of the cleaned example that lies in BEDOK.\<close>

definition bedok_view :: dataframe where
  "bedok_view =
     \<lparr>columns = [''town'', ''flat_type'', ''month'', ''resale_price'', ''floor_area_sqm'',
                 ''year''],
      rows = [bedok_2023]\<rparr>"

section \<open>Facts about the library operations\<close>

lemma bind_result_Inr_iff:
  "bind_result m f = Inr y \<longleftrightarrow> (\<exists>x. m = Inr x \<and> f x = Inr y)"
  by (cases m) (simp_all add: bind_result_def)

lemma bind_result_Inl_iff:
  "bind_result m f = Inl e \<longleftrightarrow> m = Inl e \<or> (\<exists>x. m = Inr x \<and> f x = Inl e)"
  by (cases m) (simp_all add: bind_result_def)

lemma columns_setitem:
  "set (columns (setitem df col vs)) = insert col (set (columns df))"
  by (auto simp: setitem_def)

lemma rows_setitem_map:
  "rows (setitem df col (map f (column_values df col))) = map (\<lambda>r. r(col := f (r col))) (rows df)"
  by (simp add: setitem_def column_values_def zip_map2 zip_same_conv_map)

lemma columns_cast_column: "columns (cast_column P df col) = columns df"
  by (simp add: cast_column_def setitem_def)

lemma columns_type_casting: "columns (type_casting P df) = columns df"
  by (simp add: type_casting_def cols_to_numeric_def columns_cast_column)

lemma year_extraction_columns:
  "year_extraction P df = Inr df' \<Longrightarrow> col \<in> set (columns df') \<Longrightarrow>
   col \<in> set (columns df) \<or> col = ''year''"
  by (auto simp: year_extraction_def bind_result_Inr_iff Let_def columns_setitem
      split: if_splits)

section \<open>Cleaning a table that has no price column\<close>

text \<open>
  C10. For every table that is not \<^verbatim>\<open>None\<close> and has no \<^verbatim>\<open>resale_price\<close> column,
  \<^verbatim>\<open>clean_data\<close> does not return a table: it ends in an exception. The type casting loop and
  the year extraction skip the columns that are absent, so when \<^verbatim>\<open>floor_area_sqm\<close> and
  \<^verbatim>\<open>month\<close> are absent as well both steps leave the table as it is, and the exception is the
  KeyError of the \<^verbatim>\<open>dropna\<close> on the absent price column.
\<close>

theorem clean_data_without_price_column:
  assumes "''resale_price'' \<notin> set (columns df)"
  shows "(\<exists>e. clean_data P (Some df) = Inl e) \<and>
         (''floor_area_sqm'' \<notin> set (columns df) \<and> ''month'' \<notin> set (columns df) \<longrightarrow>
            type_casting P df = df \<and> year_extraction P df = Inr df \<and>
            clean_data P (Some df) = Inl (KeyError ''resale_price''))"
proof -
  have absent: "''resale_price'' \<notin> set (columns (type_casting P df))"
    using assms by (simp add: columns_type_casting)
  have fails: "\<exists>e. clean_data P (Some df) = Inl e"
  proof (cases "year_extraction P (type_casting P df)")
    case (Inl e)
    then show ?thesis by (simp add: bind_result_def)
  next
    case (Inr df2)
    with absent have "''resale_price'' \<notin> set (columns df2)"
      using year_extraction_columns [of P "type_casting P df" df2 "''resale_price''"] by auto
    with Inr show ?thesis by (simp add: bind_result_def dropna_def)
  qed
  have skip: "type_casting P df = df \<and> year_extraction P df = Inr df \<and>
      clean_data P (Some df) = Inl (KeyError ''resale_price'')"
    if "''floor_area_sqm'' \<notin> set (columns df)" "''month'' \<notin> set (columns df)"
  proof -
    have tc: "type_casting P df = df"
      using assms that by (simp add: type_casting_def cols_to_numeric_def cast_column_def)
    have ye: "year_extraction P df = Inr df"
      using that by (simp add: year_extraction_def)
    show ?thesis using tc ye assms by (simp add: bind_result_def dropna_def)
  qed
  from fails skip show ?thesis by blast
qed

theorem clean_data_without_price_column_witness:
  "''resale_price'' \<notin> set (columns towns_only) \<and>
   ''floor_area_sqm'' \<notin> set (columns towns_only) \<and> ''month'' \<notin> set (columns towns_only) \<and>
   type_casting sample_pandas towns_only = towns_only \<and>
   clean_data sample_pandas (Some towns_only) = Inl (KeyError ''resale_price'')"
proof -
  have cols: "''resale_price'' \<notin> set (columns towns_only)"
    "''floor_area_sqm'' \<notin> set (columns towns_only)" "''month'' \<notin> set (columns towns_only)"
    by (simp_all add: towns_only_def)
  from clean_data_without_price_column [OF cols(1), of sample_pandas] cols
  show ?thesis by blast
qed

section \<open>Facts about the filters\<close>

lemma filter_zip_map: "map fst (filter snd (zip xs (map p xs))) = filter p xs"
  by (induction xs) simp_all

lemma rows_boolean_index_map:
  "rows (boolean_index df (map p (column_values df col))) = filter (\<lambda>r. p (r col)) (rows df)"
proof -
  have "map p (column_values df col) = map (\<lambda>r. p (r col)) (rows df)"
    by (simp add: column_values_def)
  then show ?thesis
    by (simp add: boolean_index_def filter_zip_map)
qed

lemma columns_boolean_index: "columns (boolean_index df flags) = columns df"
  by (simp add: boolean_index_def)

lemma columns_head: "columns (head n df) = columns df"
  by (simp add: head_def)

section \<open>Sampling\<close>

text \<open>
  C8. For every cleaned table of n rows and every sample size k with \<open>0 \<le> k \<le> n\<close>, the
  sampling step \<^verbatim>\<open>clean_df.head(k)\<close> returns exactly the first k rows of the cleaned table in
  their original order, under the same columns.
\<close>

theorem head_first_rows:
  assumes "0 \<le> k" and "k \<le> int (length (rows clean_df))"
  shows "rows (head k clean_df) = take (nat k) (rows clean_df) \<and>
         length (rows (head k clean_df)) = nat k \<and>
         (\<forall>i < nat k. rows (head k clean_df) ! i = rows clean_df ! i) \<and>
         columns (head k clean_df) = columns clean_df"
proof -
  from assms have "nat k \<le> length (rows clean_df)" by linarith
  moreover from assms have "rows (head k clean_df) = take (nat k) (rows clean_df)"
    by (simp add: head_def)
  ultimately show ?thesis by (simp add: columns_head)
qed

theorem head_first_rows_witness:
  "(0::int) \<le> 2 \<and> 2 \<le> int (length (rows three_towns)) \<and>
   map (\<lambda>r. r ''town'') (rows (head 2 three_towns)) = [Str ''BEDOK'', Str ''TAMPINES''] \<and>
   length (rows (head 2 three_towns)) = 2"
proof -
  have k: "(0::int) \<le> 2" "2 \<le> int (length (rows three_towns))"
    by (simp_all add: three_towns_def)
  from head_first_rows [OF k]
  have r: "rows (head 2 three_towns) = take (nat 2) (rows three_towns)"
    and l: "length (rows (head 2 three_towns)) = nat 2"
    by (rule conjunct1, rule conjunct2 [THEN conjunct1])
  have t: "map (\<lambda>r. r ''town'') (take (nat 2) (rows three_towns)) =
      [Str ''BEDOK'', Str ''TAMPINES'']"
    by (simp add: three_towns_def record_row_def)
  from k r l t show ?thesis by simp
qed

section \<open>The town filter\<close>

text \<open>
  C7. For every sampled table and every town selection: an empty selection returns the table
  unchanged, and a selection that is not empty returns exactly the rows whose town is one of the
  selected towns, in their order (every returned row's town is selected, and no row whose town
  is not selected is returned). The table has a town column here: \<^verbatim>\<open>run_dashboard\<close> has read
  it for the selector before it filters.
\<close>

theorem town_filter_selection:
  "town_filter [] current_df = Inr current_df \<and>
   (selected \<noteq> [] \<and> ''town'' \<in> set (columns current_df) \<longrightarrow>
      (\<exists>filtered_df. town_filter selected current_df = Inr filtered_df \<and>
         columns filtered_df = columns current_df \<and>
         rows filtered_df = filter (\<lambda>r. r ''town'' \<in> set selected) (rows current_df) \<and>
         (\<forall>r \<in> set (rows filtered_df). r ''town'' \<in> set selected) \<and>
         (\<forall>r \<in> set (rows current_df). r ''town'' \<notin> set selected \<longrightarrow> r \<notin> set (rows filtered_df))))"
proof -
  have none: "town_filter [] current_df = Inr current_df"
    by (simp add: town_filter_def)
  have some: "\<exists>filtered_df. town_filter selected current_df = Inr filtered_df \<and>
         columns filtered_df = columns current_df \<and>
         rows filtered_df = filter (\<lambda>r. r ''town'' \<in> set selected) (rows current_df) \<and>
         (\<forall>r \<in> set (rows filtered_df). r ''town'' \<in> set selected) \<and>
         (\<forall>r \<in> set (rows current_df). r ''town'' \<notin> set selected \<longrightarrow> r \<notin> set (rows filtered_df))"
    if "selected \<noteq> []" "''town'' \<in> set (columns current_df)"
  proof -
    let ?f = "boolean_index current_df
        (map (\<lambda>t. t \<in> set selected) (column_values current_df ''town''))"
    have eq: "town_filter selected current_df = Inr ?f"
      using that by (simp add: town_filter_def getitem_def bind_result_def)
    have rs: "rows ?f = filter (\<lambda>r. r ''town'' \<in> set selected) (rows current_df)"
      by (rule rows_boolean_index_map)
    from eq rs show ?thesis
      by (simp add: columns_boolean_index)
  qed
  from none some show ?thesis by blast
qed

theorem town_filter_selection_witness:
  "[Str ''BEDOK''] \<noteq> [] \<and> ''town'' \<in> set (columns three_towns) \<and>
   (\<exists>filtered_df. town_filter [Str ''BEDOK''] three_towns = Inr filtered_df \<and>
      map (\<lambda>r. r ''town'') (rows filtered_df) = [Str ''BEDOK'', Str ''BEDOK'']) \<and>
   town_filter [] three_towns = Inr three_towns"
proof -
  have h: "[Str ''BEDOK''] \<noteq> [] \<and> ''town'' \<in> set (columns three_towns)"
    by (simp add: three_towns_def)
  have t: "map (\<lambda>r. r ''town'')
      (filter (\<lambda>r. r ''town'' \<in> set [Str ''BEDOK'']) (rows three_towns)) =
      [Str ''BEDOK'', Str ''BEDOK'']"
    by (simp add: three_towns_def record_row_def)
  note sel = town_filter_selection [of three_towns "[Str ''BEDOK'']"]
  from sel have none: "town_filter [] three_towns = Inr three_towns"
    by (rule conjunct1)
  from sel [THEN conjunct2, THEN mp, OF h] obtain filtered_df where
    f: "town_filter [Str ''BEDOK''] three_towns = Inr filtered_df"
    and r: "rows filtered_df =
      filter (\<lambda>r. r ''town'' \<in> set [Str ''BEDOK'']) (rows three_towns)"
    by (elim exE conjE)
  from r t have m: "map (\<lambda>r. r ''town'') (rows filtered_df) = [Str ''BEDOK'', Str ''BEDOK'']"
    by (simp only:)
  from f m have ex: "\<exists>filtered_df. town_filter [Str ''BEDOK''] three_towns = Inr filtered_df \<and>
      map (\<lambda>r. r ''town'') (rows filtered_df) = [Str ''BEDOK'', Str ''BEDOK'']"
    by (intro exI [of _ filtered_df] conjI)
  from h [THEN conjunct1] h [THEN conjunct2] ex none show ?thesis
    by (intro conjI)
qed

section \<open>Failures of the fetch\<close>

text \<open>
  What the \<^verbatim>\<open>except\<close> clause of \<^verbatim>\<open>load_all_data\<close> does catch: a request that fails on
  the network, a status from 400 to 599, and a body that is not JSON end in \<open>FetchFailure\<close>;
  a body with \<^verbatim>\<open>result.records\<close> ends in what \<^verbatim>\<open>pd.DataFrame\<close> makes of the records.
\<close>

lemma load_all_data_request_failures:
  "load_all_data DataFrame NoReply = Inr (FetchFailure ConnectionError)"
  "400 \<le> status \<Longrightarrow> status < 600 \<Longrightarrow>
     load_all_data DataFrame (Response status body) = Inr (FetchFailure HTTPError)"
  "\<not> (400 \<le> status \<and> status < 600) \<Longrightarrow>
     load_all_data DataFrame (Response status None) = Inr (FetchFailure JSONDecodeError)"
  by (simp_all add: load_all_data_def fetch_def requests_get_def raise_for_status_def
      response_json_def bind_result_def)

lemma load_all_data_records:
  assumes "\<not> (400 \<le> status \<and> status < 600)"
    and "map_of packet ''result'' = Some (JObj result)"
    and "map_of result ''records'' = Some records"
  shows "load_all_data DataFrame (Response status (Some (JObj packet))) =
         (case DataFrame records of Inl e \<Rightarrow> Inl e | Inr df \<Rightarrow> Inr (Dataset df))"
  using assms
  by (simp add: load_all_data_def fetch_def requests_get_def raise_for_status_def
      response_json_def bind_result_def split: sum.splits)

text \<open>
  C3. The claim is that every fetch that meets a network error, a non-success status or a
  malformed body, a body without the \<^verbatim>\<open>result.records\<close> structure included, returns a
  \<open>FetchFailure\<close>. The code does not do that for a body that is JSON and lacks the
  structure: on a 200 response whose body is \<^verbatim>\<open>{"success": false}\<close> the subscript
  \<^verbatim>\<open>data_packet['result']\<close> raises KeyError inside the \<^verbatim>\<open>try\<close>, the
  \<^verbatim>\<open>except requests.exceptions.RequestException\<close> clause does not catch it, and the
  exception leaves \<^verbatim>\<open>load_all_data\<close>: no error is shown and nothing is returned. The same
  holds for a \<^verbatim>\<open>result\<close> without \<^verbatim>\<open>records\<close> and for a body that is a JSON array.
\<close>

theorem load_all_data_missing_records_raises:
  "load_all_data DataFrame (Response 200 (Some (JObj [(''success'', JBool False)]))) =
     Inl (KeyError ''result'') \<and>
   load_all_data DataFrame (Response 200 (Some (JObj [(''result'', JObj [])]))) =
     Inl (KeyError ''records'') \<and>
   load_all_data DataFrame (Response 200 (Some (JArr []))) = Inl TypeError"
  by (simp add: load_all_data_def fetch_def requests_get_def raise_for_status_def
      response_json_def bind_result_def)

section \<open>Facts about the cleaner\<close>

lemma rows_setitem_rows:
  "rows (setitem df col (map g (rows df))) = map (\<lambda>r. r(col := g r)) (rows df)"
  by (simp add: setitem_def zip_map2 zip_same_conv_map)

lemma rows_cast_column:
  "rows (cast_column P df col) = map (cast_cell P (columns df) col) (rows df)"
proof (cases "col \<in> set (columns df)")
  case True
  then show ?thesis
    by (simp add: cast_column_def rows_setitem_map cast_cell_def [abs_def])
next
  case False
  then show ?thesis
    by (simp add: cast_column_def cast_cell_def [abs_def])
qed

lemma rows_type_casting:
  "rows (type_casting P df) =
   map (\<lambda>r. cast_cell P (columns df) ''floor_area_sqm''
              (cast_cell P (columns df) ''resale_price'' r)) (rows df)"
  by (simp add: type_casting_def cols_to_numeric_def rows_cast_column columns_cast_column)

lemma to_datetime_series_Inr:
  "to_datetime_series P cs = Inr ds \<Longrightarrow>
   ds = map (\<lambda>c. case to_datetime P c of Inr d \<Rightarrow> d | Inl e \<Rightarrow> c) cs \<and>
   (\<forall>c \<in> set cs. \<exists>d. to_datetime P c = Inr d)"
proof (induction cs arbitrary: ds)
  case Nil
  then show ?case by simp
next
  case (Cons c cs)
  from Cons.prems obtain d ds' where d: "to_datetime P c = Inr d"
    and ds': "to_datetime_series P cs = Inr ds'" and ds: "ds = d # ds'"
    by (auto simp: bind_result_Inr_iff)
  from Cons.IH [OF ds'] d ds show ?case by simp
qed

lemma year_extraction_rows:
  assumes "year_extraction P df = Inr df'"
  shows "rows df' = map (date_row P (columns df)) (rows df)"
proof (cases "''month'' \<in> set (columns df)")
  case False
  with assms show ?thesis
    by (simp add: year_extraction_def date_row_def [abs_def])
next
  case True
  let ?f = "\<lambda>c. case to_datetime P c of Inr d \<Rightarrow> d | Inl e \<Rightarrow> c"
  from assms True obtain ds where
    ds: "to_datetime_series P (column_values df ''month'') = Inr ds"
    and df': "df' = (let df1 = setitem df ''month'' ds
                     in setitem df1 ''year'' (map dt_year (column_values df1 ''month'')))"
    by (auto simp: year_extraction_def bind_result_Inr_iff Let_def)
  from to_datetime_series_Inr [OF ds]
  have dsmap: "ds = map ?f (column_values df ''month'')"
    and ok: "\<forall>c \<in> set (column_values df ''month''). \<exists>d. to_datetime P c = Inr d"
    by blast+
  have r1: "rows (setitem df ''month'' ds) = map (\<lambda>r. r(''month'' := ?f (r ''month''))) (rows df)"
    unfolding dsmap by (rule rows_setitem_map)
  let ?df1 = "setitem df ''month'' ds"
  have "rows df' = map (\<lambda>r. r(''year'' := dt_year (r ''month''))) (rows ?df1)"
    unfolding df' Let_def column_values_def
    using rows_setitem_rows [of ?df1 "''year''" "\<lambda>r. dt_year (r ''month'')"]
    by (simp add: comp_def)
  also have "\<dots> = map (\<lambda>r. r(''month'' := ?f (r ''month''), ''year'' := dt_year (?f (r ''month''))))
      (rows df)"
    by (simp add: r1)
  also have "\<dots> = map (date_row P (columns df)) (rows df)"
  proof (rule map_cong [OF refl])
    fix r assume "r \<in> set (rows df)"
    with ok obtain d where "to_datetime P (r ''month'') = Inr d"
      by (auto simp: column_values_def)
    with True show "r(''month'' := ?f (r ''month''), ''year'' := dt_year (?f (r ''month''))) =
        date_row P (columns df) r"
      by (simp add: date_row_def)
  qed
  finally show ?thesis .
qed

lemma year_extraction_parsed:
  assumes "year_extraction P df = Inr df'" and "''month'' \<in> set (columns df)"
    and "r \<in> set (rows df)"
  shows "\<exists>d. to_datetime P (r ''month'') = Inr d"
proof -
  from assms obtain ds where
    ds: "to_datetime_series P (column_values df ''month'') = Inr ds"
    by (auto simp: year_extraction_def bind_result_Inr_iff)
  from to_datetime_series_Inr [OF ds] assms(3) show ?thesis
    by (auto simp: column_values_def)
qed

lemma year_extraction_columns_eq:
  assumes "year_extraction P df = Inr df'"
  shows "columns df' =
    (if ''month'' \<in> set (columns df) \<and> ''year'' \<notin> set (columns df)
     then columns df @ [''year''] else columns df)"
  using assms
  by (auto simp: year_extraction_def bind_result_Inr_iff Let_def setitem_def split: if_splits)

lemma clean_data_rows:
  assumes "clean_data P (Some df) = Inr (Some df')"
  shows "rows df' = filter (\<lambda>r. r ''resale_price'' \<noteq> Missing)
                      (map (clean_row P (columns df)) (rows df))"
    and "''resale_price'' \<in> set (columns df)"
    and "columns df' =
      (if ''month'' \<in> set (columns df) \<and> ''year'' \<notin> set (columns df)
       then columns df @ [''year''] else columns df)"
proof -
  from assms obtain df2 where
    ye: "year_extraction P (type_casting P df) = Inr df2"
    and dn: "dropna ''resale_price'' df2 = Inr df'"
    by (auto simp: bind_result_Inr_iff)
  from dn have price2: "''resale_price'' \<in> set (columns df2)"
    and rows': "rows df' = filter (\<lambda>r. r ''resale_price'' \<noteq> Missing) (rows df2)"
    and cols': "columns df' = columns df2"
    by (auto simp: dropna_def split: if_splits)
  from year_extraction_columns_eq [OF ye]
  have cols2: "columns df2 =
      (if ''month'' \<in> set (columns df) \<and> ''year'' \<notin> set (columns df)
       then columns df @ [''year''] else columns df)"
    by (simp add: columns_type_casting)
  from price2 cols2 show "''resale_price'' \<in> set (columns df)"
    by (auto split: if_splits)
  from cols' cols2 show "columns df' =
      (if ''month'' \<in> set (columns df) \<and> ''year'' \<notin> set (columns df)
       then columns df @ [''year''] else columns df)"
    by simp
  have "rows df2 = map (clean_row P (columns df)) (rows df)"
    using year_extraction_rows [OF ye]
    by (simp add: rows_type_casting columns_type_casting clean_row_def)
  with rows' show "rows df' = filter (\<lambda>r. r ''resale_price'' \<noteq> Missing)
                      (map (clean_row P (columns df)) (rows df))"
    by simp
qed

lemma clean_row_price:
  "''resale_price'' \<in> set cols \<Longrightarrow> clean_row P cols r ''resale_price'' = to_numeric P (r ''resale_price'')"
  by (simp add: clean_row_def date_row_def cast_cell_def split: sum.splits)

lemma clean_row_area:
  "''floor_area_sqm'' \<in> set cols \<Longrightarrow>
   clean_row P cols r ''floor_area_sqm'' = to_numeric P (r ''floor_area_sqm'')"
  by (simp add: clean_row_def date_row_def cast_cell_def split: sum.splits)

lemma clean_row_passthrough: "passthrough (clean_row P cols r) = passthrough r"
  by (rule ext)
    (simp add: passthrough_def core_columns_def clean_row_def date_row_def cast_cell_def
      split: sum.splits)

lemma to_numeric_idem: "to_numeric P (to_numeric P c) = to_numeric P c"
  by (cases c) (simp_all split: option.splits)

lemma to_numeric_cases: "to_numeric P c = Missing \<or> (\<exists>v. to_numeric P c = Num v)"
  by (cases c) (simp_all split: option.splits)

lemma to_datetime_fixed: "to_datetime P c = Inr d \<Longrightarrow> to_datetime P d = Inr d"
  by (cases c) (auto split: option.splits)

lemma to_datetime_series_fixed:
  "(\<And>c. c \<in> set cs \<Longrightarrow> to_datetime P c = Inr c) \<Longrightarrow> to_datetime_series P cs = Inr cs"
  by (induction cs) (simp_all add: bind_result_def)

lemma dataframe_eqI:
  fixes df df' :: dataframe
  shows "columns df = columns df' \<Longrightarrow> rows df = rows df' \<Longrightarrow> df = df'"
  by simp

lemma setitem_same:
  assumes "col \<in> set (columns df)" and "\<And>r. r \<in> set (rows df) \<Longrightarrow> g r = r col"
  shows "setitem df col (map g (rows df)) = df"
proof (rule dataframe_eqI)
  show "columns (setitem df col (map g (rows df))) = columns df"
    using assms(1) by (simp add: setitem_def)
  have "map (\<lambda>r. r(col := g r)) (rows df) = rows df"
    by (rule map_idI) (simp add: assms(2))
  then show "rows (setitem df col (map g (rows df))) = rows df"
    by (simp only: rows_setitem_rows)
qed

lemma cast_cell_other: "c \<noteq> col \<Longrightarrow> cast_cell P cols col r c = r c"
  by (simp add: cast_cell_def)

lemma clean_row_month:
  assumes "''month'' \<in> set cols" and "to_datetime P (r ''month'') = Inr d"
  shows "clean_row P cols r ''month'' = d" and "clean_row P cols r ''year'' = dt_year d"
  using assms by (simp_all add: clean_row_def date_row_def cast_cell_def)

lemma clean_row_keeps:
  "''month'' \<notin> set cols \<Longrightarrow> c \<noteq> ''resale_price'' \<Longrightarrow> c \<noteq> ''floor_area_sqm'' \<Longrightarrow>
   clean_row P cols r c = r c"
  by (simp add: clean_row_def date_row_def cast_cell_def)

lemma clean_data_row_facts:
  assumes ok: "clean_data P (Some df) = Inr (Some df')" and r': "r' \<in> set (rows df')"
  shows "\<exists>v. r' ''resale_price'' = Num v"
    and "''floor_area_sqm'' \<in> set (columns df) \<Longrightarrow>
         to_numeric P (r' ''floor_area_sqm'') = r' ''floor_area_sqm''"
    and "''month'' \<in> set (columns df) \<Longrightarrow>
         to_datetime P (r' ''month'') = Inr (r' ''month'') \<and> r' ''year'' = dt_year (r' ''month'')"
proof -
  note facts = clean_data_rows [OF ok]
  from r' facts(1) obtain r where r: "r \<in> set (rows df)"
    and eq: "r' = clean_row P (columns df) r" and present: "r' ''resale_price'' \<noteq> Missing"
    by auto
  from eq facts(2) have "r' ''resale_price'' = to_numeric P (r ''resale_price'')"
    by (simp add: clean_row_price)
  with present to_numeric_cases [of P "r ''resale_price''"]
  show "\<exists>v. r' ''resale_price'' = Num v" by auto
  show "to_numeric P (r' ''floor_area_sqm'') = r' ''floor_area_sqm''"
    if "''floor_area_sqm'' \<in> set (columns df)"
    using that eq by (simp add: clean_row_area to_numeric_idem)
  show "to_datetime P (r' ''month'') = Inr (r' ''month'') \<and> r' ''year'' = dt_year (r' ''month'')"
    if m: "''month'' \<in> set (columns df)"
  proof -
    from ok obtain df2 where ye: "year_extraction P (type_casting P df) = Inr df2"
      by (auto simp: bind_result_Inr_iff)
    let ?r0 = "cast_cell P (columns df) ''floor_area_sqm''
        (cast_cell P (columns df) ''resale_price'' r)"
    from r have "?r0 \<in> set (rows (type_casting P df))"
      by (simp add: rows_type_casting)
    with year_extraction_parsed [OF ye] m
    obtain d where "to_datetime P (?r0 ''month'') = Inr d"
      by (auto simp: columns_type_casting)
    then have d: "to_datetime P (r ''month'') = Inr d"
      by (simp add: cast_cell_other)
    from clean_row_month [where cols = "columns df" and P = P and r = r and d = d, OF m d]
      eq to_datetime_fixed [OF d] show ?thesis
      by simp
  qed
qed

lemma type_casting_fixed:
  assumes "\<And>r. r \<in> set (rows df) \<Longrightarrow> to_numeric P (r ''resale_price'') = r ''resale_price''"
    and "\<And>r. r \<in> set (rows df) \<Longrightarrow> ''floor_area_sqm'' \<in> set (columns df) \<Longrightarrow>
           to_numeric P (r ''floor_area_sqm'') = r ''floor_area_sqm''"
  shows "type_casting P df = df"
proof (rule dataframe_eqI)
  show "columns (type_casting P df) = columns df"
    by (rule columns_type_casting)
  have "map (\<lambda>r. cast_cell P (columns df) ''floor_area_sqm''
              (cast_cell P (columns df) ''resale_price'' r)) (rows df) = rows df"
  proof (rule map_idI)
    fix r assume r: "r \<in> set (rows df)"
    from assms(1) [OF r] have p: "cast_cell P (columns df) ''resale_price'' r = r"
      by (simp add: cast_cell_def)
    from assms(2) [OF r] have "cast_cell P (columns df) ''floor_area_sqm'' r = r"
      by (simp add: cast_cell_def)
    with p show "cast_cell P (columns df) ''floor_area_sqm''
        (cast_cell P (columns df) ''resale_price'' r) = r"
      by simp
  qed
  then show "rows (type_casting P df) = rows df"
    by (simp only: rows_type_casting)
qed

lemma year_extraction_fixed:
  assumes "''month'' \<in> set (columns df) \<Longrightarrow> ''year'' \<in> set (columns df)"
    and "\<And>r. r \<in> set (rows df) \<Longrightarrow> ''month'' \<in> set (columns df) \<Longrightarrow>
           to_datetime P (r ''month'') = Inr (r ''month'') \<and> r ''year'' = dt_year (r ''month'')"
  shows "year_extraction P df = Inr df"
proof (cases "''month'' \<in> set (columns df)")
  case False
  then show ?thesis by (simp add: year_extraction_def)
next
  case True
  have ser: "to_datetime_series P (column_values df ''month'') = Inr (column_values df ''month'')"
    by (rule to_datetime_series_fixed) (use assms(2) True in \<open>auto simp: column_values_def\<close>)
  have s1: "setitem df ''month'' (column_values df ''month'') = df"
    unfolding column_values_def by (rule setitem_same) (use True in simp_all)
  have s2: "setitem df ''year'' (map dt_year (column_values df ''month'')) = df"
  proof -
    have "setitem df ''year'' (map (\<lambda>r. dt_year (r ''month'')) (rows df)) = df"
      by (rule setitem_same) (use assms True in simp_all)
    then show ?thesis by (simp add: column_values_def comp_def)
  qed
  from True ser s1 s2 show ?thesis
    by (simp add: year_extraction_def bind_result_def Let_def)
qed

lemma clean_data_fixed:
  assumes ok: "clean_data P (Some df) = Inr (Some df')"
  shows "clean_data P (Some df') = Inr (Some df')"
proof -
  note facts = clean_data_rows [OF ok]
  note row = clean_data_row_facts [OF ok]
  have area: "''floor_area_sqm'' \<in> set (columns df') \<longleftrightarrow> ''floor_area_sqm'' \<in> set (columns df)"
    and month: "''month'' \<in> set (columns df') \<longleftrightarrow> ''month'' \<in> set (columns df)"
    and year: "''month'' \<in> set (columns df) \<Longrightarrow> ''year'' \<in> set (columns df')"
    and price: "''resale_price'' \<in> set (columns df')"
    using facts(2,3) by (auto split: if_splits)
  have tc: "type_casting P df' = df'"
  proof (rule type_casting_fixed)
    fix r assume r: "r \<in> set (rows df')"
    from row(1) [OF r] show "to_numeric P (r ''resale_price'') = r ''resale_price''"
      by auto
    show "to_numeric P (r ''floor_area_sqm'') = r ''floor_area_sqm''"
      if "''floor_area_sqm'' \<in> set (columns df')"
      using that area row(2) [OF r] by simp
  qed
  have ye: "year_extraction P df' = Inr df'"
  proof (rule year_extraction_fixed)
    show "''year'' \<in> set (columns df')" if "''month'' \<in> set (columns df')"
      using that month year by simp
    show "to_datetime P (r ''month'') = Inr (r ''month'') \<and> r ''year'' = dt_year (r ''month'')"
      if "r \<in> set (rows df')" "''month'' \<in> set (columns df')" for r
      using that month row(3) by simp
  qed
  have "r ''resale_price'' \<noteq> Missing" if "r \<in> set (rows df')" for r
    using row(1) [OF that] by auto
  then have "filter (\<lambda>r. r ''resale_price'' \<noteq> Missing) (rows df') = rows df'"
    by (simp add: filter_id_conv)
  with price have dn: "dropna ''resale_price'' df' = Inr df'"
    by (simp add: dropna_def)
  from tc ye dn show ?thesis
    by (simp add: bind_result_def)
qed

section \<open>Cleaning twice\<close>

text \<open>
  C5. \<^verbatim>\<open>clean_data\<close> is idempotent: for every input x, cleaning the result of
  \<^verbatim>\<open>clean_data(x)\<close> again gives \<^verbatim>\<open>clean_data(x)\<close>. A cleaned table passes through
  unchanged, because numbers and timestamps are read as themselves and no row is left to drop;
  \<^verbatim>\<open>None\<close> stays \<^verbatim>\<open>None\<close>; and where the first call raises, so does the composition.
\<close>

theorem clean_data_idempotent:
  "bind_result (clean_data P x) (clean_data P) = clean_data P x"
proof (cases x)
  case None
  then show ?thesis by (simp add: bind_result_def)
next
  case (Some df)
  show ?thesis
  proof (cases "clean_data P (Some df)")
    case (Inl e)
    with Some show ?thesis by (simp add: bind_result_def)
  next
    case (Inr y)
    then obtain df' where y: "y = Some df'"
      by (auto simp: bind_result_Inr_iff)
    from Inr y have "clean_data P (Some df') = Inr (Some df')"
      by (intro clean_data_fixed) simp
    with Some Inr y show ?thesis by (simp add: bind_result_def)
  qed
qed

lemma to_datetime_series_total:
  "(\<And>c. c \<in> set cs \<Longrightarrow> \<exists>d. to_datetime P c = Inr d) \<Longrightarrow> \<exists>ds. to_datetime_series P cs = Inr ds"
proof (induction cs)
  case Nil
  then show ?case by simp
next
  case (Cons c cs)
  from Cons.prems obtain d where d: "to_datetime P c = Inr d" by auto
  from Cons obtain ds where "to_datetime_series P cs = Inr ds" by auto
  with d show ?case by (simp add: bind_result_def)
qed

lemma clean_data_succeeds:
  assumes price: "''resale_price'' \<in> set (columns df)"
    and parse: "\<And>r. r \<in> set (rows df) \<Longrightarrow> ''month'' \<in> set (columns df) \<Longrightarrow>
                 \<exists>d. to_datetime P (r ''month'') = Inr d"
  shows "\<exists>df'. clean_data P (Some df) = Inr (Some df')"
proof -
  let ?tc = "type_casting P df"
  have "\<exists>df2. year_extraction P ?tc = Inr df2"
  proof (cases "''month'' \<in> set (columns df)")
    case False
    then show ?thesis by (simp add: year_extraction_def columns_type_casting)
  next
    case True
    have "\<exists>d. to_datetime P c = Inr d" if "c \<in> set (column_values ?tc ''month'')" for c
    proof -
      from that obtain r where r: "r \<in> set (rows df)"
        and c: "c = cast_cell P (columns df) ''floor_area_sqm''
                      (cast_cell P (columns df) ''resale_price'' r) ''month''"
        by (auto simp: column_values_def rows_type_casting)
      from c have "c = r ''month''" by (simp add: cast_cell_other)
      with parse [OF r True] show ?thesis by simp
    qed
    from to_datetime_series_total [of "column_values ?tc ''month''" P, OF this]
    obtain ds where "to_datetime_series P (column_values ?tc ''month'') = Inr ds" by blast
    with True show ?thesis
      by (simp add: year_extraction_def columns_type_casting bind_result_def Let_def)
  qed
  then obtain df2 where ye: "year_extraction P ?tc = Inr df2" ..
  from year_extraction_columns_eq [OF ye] price have "''resale_price'' \<in> set (columns df2)"
    by (simp add: columns_type_casting)
  with ye show ?thesis by (simp add: bind_result_def dropna_def)
qed

lemma scenario_cleans: "\<exists>df'. clean_data sample_pandas (Some scenario) = Inr (Some df')"
proof (rule clean_data_succeeds)
  show "''resale_price'' \<in> set (columns scenario)"
    by (simp add: scenario_def)
  fix r assume "r \<in> set (rows scenario)"
  then have "r ''month'' \<in> {Str ''2023-05'', Str ''2023-06'', Str ''2022-01''}"
    by (auto simp: scenario_def record_row_def)
  moreover have "datetime_of_string sample_pandas ''2023-05'' = Some (Timestamp 2023 5 1)"
    "datetime_of_string sample_pandas ''2023-06'' = Some (Timestamp 2023 6 1)"
    "datetime_of_string sample_pandas ''2022-01'' = Some (Timestamp 2022 1 1)"
    by (simp_all add: sample_pandas_def read_month_def read_nat_def digit_of_def)
  ultimately show "\<exists>d. to_datetime sample_pandas (r ''month'') = Inr d"
    by auto
qed

lemma scenario_prices:
  "map (\<lambda>r. to_numeric sample_pandas (r ''resale_price'')) (rows scenario) =
     [Num 450000, Missing, Num 380000]"
  by (simp add: scenario_def record_row_def sample_pandas_def read_nat_def digit_of_def)

lemma scenario_areas:
  "map (\<lambda>r. to_numeric sample_pandas (r ''floor_area_sqm'')) (rows scenario) =
     [Num 65, Num 90, Num 68]"
  by (simp add: scenario_def record_row_def sample_pandas_def read_nat_def digit_of_def)

section \<open>Every cleaned row has a price\<close>

text \<open>
  C4. For every input table, every row of the table that \<^verbatim>\<open>clean_data\<close> returns has a
  numeric \<^verbatim>\<open>resale_price\<close> that is not missing, and the removal of the rows whose coerced
  price is missing is the only step that drops rows: the type casting and the year extraction
  keep the number of rows, the result is the output of the year extraction without the rows
  whose price is missing, and it has as many rows as the input has rows whose price reads as a
  number.
\<close>

theorem clean_data_price_present:
  assumes "clean_data P (Some df) = Inr (Some df')"
  shows "(\<forall>r \<in> set (rows df'). \<exists>v. r ''resale_price'' = Num v) \<and>
         length (rows (type_casting P df)) = length (rows df) \<and>
         (\<exists>df2. year_extraction P (type_casting P df) = Inr df2 \<and>
                length (rows df2) = length (rows df) \<and>
                dropna ''resale_price'' df2 = Inr df' \<and>
                rows df' = filter (\<lambda>r. r ''resale_price'' \<noteq> Missing) (rows df2)) \<and>
         length (rows df') =
           length (filter (\<lambda>r. to_numeric P (r ''resale_price'') \<noteq> Missing) (rows df))"
proof -
  note facts = clean_data_rows [OF assms]
  have numeric: "\<forall>r \<in> set (rows df'). \<exists>v. r ''resale_price'' = Num v"
    using clean_data_row_facts(1) [OF assms] by blast
  have casting: "length (rows (type_casting P df)) = length (rows df)"
    by (simp add: rows_type_casting)
  from assms obtain df2 where ye: "year_extraction P (type_casting P df) = Inr df2"
    and dn: "dropna ''resale_price'' df2 = Inr df'"
    by (auto simp: bind_result_Inr_iff)
  from year_extraction_rows [OF ye] have len2: "length (rows df2) = length (rows df)"
    by (simp add: rows_type_casting)
  from dn have rows': "rows df' = filter (\<lambda>r. r ''resale_price'' \<noteq> Missing) (rows df2)"
    by (auto simp: dropna_def split: if_splits)
  have "rows df' = map (clean_row P (columns df))
      (filter (\<lambda>r. to_numeric P (r ''resale_price'') \<noteq> Missing) (rows df))"
    using facts(1,2) by (simp add: filter_map comp_def clean_row_price)
  then have count: "length (rows df') =
      length (filter (\<lambda>r. to_numeric P (r ''resale_price'') \<noteq> Missing) (rows df))"
    by simp
  from ye len2 dn rows' have "\<exists>df2. year_extraction P (type_casting P df) = Inr df2 \<and>
                length (rows df2) = length (rows df) \<and>
                dropna ''resale_price'' df2 = Inr df' \<and>
                rows df' = filter (\<lambda>r. r ''resale_price'' \<noteq> Missing) (rows df2)"
    by blast
  with numeric casting count show ?thesis by blast
qed

theorem clean_data_price_present_witness:
  "\<exists>df'. clean_data sample_pandas (Some scenario) = Inr (Some df') \<and>
         (\<forall>r \<in> set (rows df'). \<exists>v. r ''resale_price'' = Num v) \<and>
         length (rows df') = 2"
proof -
  from scenario_cleans obtain df' where
    ok: "clean_data sample_pandas (Some scenario) = Inr (Some df')" ..
  note th = clean_data_price_present [OF ok]
  from th have num: "\<forall>r \<in> set (rows df'). \<exists>v. r ''resale_price'' = Num v"
    by (rule conjunct1)
  from th have "length (rows df') =
      length (filter (\<lambda>r. to_numeric sample_pandas (r ''resale_price'') \<noteq> Missing)
        (rows scenario))"
    by (elim conjE)
  also have "\<dots> = length (filter (\<lambda>c. c \<noteq> Missing)
      (map (\<lambda>r. to_numeric sample_pandas (r ''resale_price'')) (rows scenario)))"
    by (simp add: filter_map comp_def)
  also have "\<dots> = 2"
    by (simp add: scenario_prices)
  finally have "length (rows df') = 2" .
  with ok num show ?thesis by (intro exI [of _ df'] conjI)
qed

section \<open>Numeric coercion\<close>

text \<open>
  C6. For every cell of the \<^verbatim>\<open>resale_price\<close> and \<^verbatim>\<open>floor_area_sqm\<close> columns,
  \<^verbatim>\<open>clean_data\<close> reads a string that is a valid number as that number, and a string that is
  not becomes missing; the coercion step is a total function on tables, it raises nothing and
  keeps every row. A row is then dropped if and only if its coerced price is missing: the
  (price, area) pairs of the result are the coerced pairs of the input without those whose
  price is missing, so a row whose area alone is missing stays.
\<close>

theorem clean_data_numeric_coercion:
  assumes "clean_data P (Some df) = Inr (Some df')"
  shows "to_numeric P (Str s) =
           (case numeric_of_string P s of Some v \<Rightarrow> Num v | None \<Rightarrow> Missing) \<and>
         column_values (type_casting P df) ''resale_price'' =
           map (to_numeric P) (column_values df ''resale_price'') \<and>
         map (\<lambda>r. r ''resale_price'') (rows df') =
           filter (\<lambda>c. c \<noteq> Missing) (map (\<lambda>r. to_numeric P (r ''resale_price'')) (rows df)) \<and>
         (''floor_area_sqm'' \<in> set (columns df) \<longrightarrow>
            column_values (type_casting P df) ''floor_area_sqm'' =
              map (to_numeric P) (column_values df ''floor_area_sqm'') \<and>
            map (\<lambda>r. (r ''resale_price'', r ''floor_area_sqm'')) (rows df') =
              filter (\<lambda>(p, a). p \<noteq> Missing)
                (map (\<lambda>r. (to_numeric P (r ''resale_price''), to_numeric P (r ''floor_area_sqm'')))
                   (rows df)))"
proof -
  note facts = clean_data_rows [OF assms]
  let ?cols = "columns df"
  have cell: "to_numeric P (Str s) =
      (case numeric_of_string P s of Some v \<Rightarrow> Num v | None \<Rightarrow> Missing)"
    by simp
  have cast_price: "column_values (type_casting P df) ''resale_price'' =
      map (to_numeric P) (column_values df ''resale_price'')"
    using facts(2) by (simp add: column_values_def rows_type_casting cast_cell_def comp_def)
  have prices: "map (\<lambda>r. r ''resale_price'') (rows df') =
      filter (\<lambda>c. c \<noteq> Missing) (map (\<lambda>r. to_numeric P (r ''resale_price'')) (rows df))"
    using facts(1,2) by (simp add: filter_map comp_def clean_row_price)
  have area: "column_values (type_casting P df) ''floor_area_sqm'' =
        map (to_numeric P) (column_values df ''floor_area_sqm'') \<and>
      map (\<lambda>r. (r ''resale_price'', r ''floor_area_sqm'')) (rows df') =
        filter (\<lambda>(p, a). p \<noteq> Missing)
          (map (\<lambda>r. (to_numeric P (r ''resale_price''), to_numeric P (r ''floor_area_sqm'')))
             (rows df))"
    if a: "''floor_area_sqm'' \<in> set ?cols"
  proof
    show "column_values (type_casting P df) ''floor_area_sqm'' =
        map (to_numeric P) (column_values df ''floor_area_sqm'')"
      using a by (simp add: column_values_def rows_type_casting cast_cell_def comp_def)
    show "map (\<lambda>r. (r ''resale_price'', r ''floor_area_sqm'')) (rows df') =
        filter (\<lambda>(p, a). p \<noteq> Missing)
          (map (\<lambda>r. (to_numeric P (r ''resale_price''), to_numeric P (r ''floor_area_sqm'')))
             (rows df))"
      using facts(1,2) a by (simp add: filter_map comp_def clean_row_price clean_row_area)
  qed
  from cell cast_price prices area show ?thesis by blast
qed

theorem clean_data_numeric_coercion_witness:
  "''floor_area_sqm'' \<in> set (columns scenario) \<and>
   (\<exists>df'. clean_data sample_pandas (Some scenario) = Inr (Some df') \<and>
      map (\<lambda>r. (r ''resale_price'', r ''floor_area_sqm'')) (rows df') =
        [(Num 450000, Num 65), (Num 380000, Num 68)])"
proof -
  have a: "''floor_area_sqm'' \<in> set (columns scenario)"
    by (simp add: scenario_def)
  from scenario_cleans obtain df' where
    ok: "clean_data sample_pandas (Some scenario) = Inr (Some df')" ..
  note th = clean_data_numeric_coercion [OF ok, of "''65''"]
  from th a have "map (\<lambda>r. (r ''resale_price'', r ''floor_area_sqm'')) (rows df') =
      filter (\<lambda>(p, a). p \<noteq> Missing)
        (map (\<lambda>r. (to_numeric sample_pandas (r ''resale_price''),
                    to_numeric sample_pandas (r ''floor_area_sqm''))) (rows scenario))"
    by (elim conjE impE) assumption
  also have "map (\<lambda>r. (to_numeric sample_pandas (r ''resale_price''),
                    to_numeric sample_pandas (r ''floor_area_sqm''))) (rows scenario) =
      zip (map (\<lambda>r. to_numeric sample_pandas (r ''resale_price'')) (rows scenario))
          (map (\<lambda>r. to_numeric sample_pandas (r ''floor_area_sqm'')) (rows scenario))"
    by (simp add: zip_map_map zip_same_conv_map)
  also have "filter (\<lambda>(p, a). p \<noteq> Missing) \<dots> = [(Num 450000, Num 65), (Num 380000, Num 68)]"
    by (simp add: scenario_prices scenario_areas)
  finally have "map (\<lambda>r. (r ''resale_price'', r ''floor_area_sqm'')) (rows df') =
      [(Num 450000, Num 65), (Num 380000, Num 68)]" .
  with ok have "\<exists>df'. clean_data sample_pandas (Some scenario) = Inr (Some df') \<and>
      map (\<lambda>r. (r ''resale_price'', r ''floor_area_sqm'')) (rows df') =
        [(Num 450000, Num 65), (Num 380000, Num 68)]"
    by (intro exI [of _ df'] conjI)
  with a show ?thesis by (intro conjI)
qed

section \<open>The running example, cleaned\<close>

lemma sample_readers:
  "numeric_of_string sample_pandas ''450000'' = Some 450000"
  "numeric_of_string sample_pandas ''380000'' = Some 380000"
  "numeric_of_string sample_pandas ''not_a_number'' = None"
  "numeric_of_string sample_pandas ''65'' = Some 65"
  "numeric_of_string sample_pandas ''90'' = Some 90"
  "numeric_of_string sample_pandas ''68'' = Some 68"
  "datetime_of_string sample_pandas ''2023-05'' = Some (Timestamp 2023 5 1)"
  "datetime_of_string sample_pandas ''2023-06'' = Some (Timestamp 2023 6 1)"
  "datetime_of_string sample_pandas ''2022-01'' = Some (Timestamp 2022 1 1)"
  by (simp_all add: sample_pandas_def read_month_def read_nat_def digit_of_def)

lemma clean_data_total:
  assumes ok: "clean_data P (Some df) = Inr (Some df')"
  shows "df' = \<lparr>columns = (if ''month'' \<in> set (columns df) \<and> ''year'' \<notin> set (columns df)
                           then columns df @ [''year''] else columns df),
                rows = filter (\<lambda>r. r ''resale_price'' \<noteq> Missing)
                         (map (clean_row P (columns df)) (rows df))\<rparr>"
  by (rule dataframe_eqI) (simp_all add: clean_data_rows [OF ok])

lemma scenario_rows:
  "map (clean_row sample_pandas (columns scenario)) (rows scenario) =
     [bedok_2023,
      record_row [(''town'', Str ''BEDOK''), (''flat_type'', Str ''4 ROOM''),
        (''month'', Date (Timestamp 2023 6 1)), (''resale_price'', Missing),
        (''floor_area_sqm'', Num 90), (''year'', Num 2023)],
      tampines_2022]"
  by (auto simp: scenario_def clean_row_def date_row_def cast_cell_def record_row_def
      sample_readers bedok_2023_def tampines_2022_def fun_eq_iff)

lemma clean_scenario: "clean_data sample_pandas (Some scenario) = Inr (Some cleaned_scenario)"
proof -
  from scenario_cleans obtain df' where
    ok: "clean_data sample_pandas (Some scenario) = Inr (Some df')" ..
  have "filter (\<lambda>r. r ''resale_price'' \<noteq> Missing)
      (map (clean_row sample_pandas (columns scenario)) (rows scenario)) =
      [bedok_2023, tampines_2022]"
    unfolding scenario_rows by (simp add: bedok_2023_def tampines_2022_def record_row_def)
  with clean_data_total [OF ok] have "df' = cleaned_scenario"
    by (simp add: cleaned_scenario_def scenario_def)
  with ok show ?thesis by simp
qed

section \<open>Facts about the view\<close>

lemma scenario_cells:
  "bedok_2023 ''town'' = Str ''BEDOK''" "bedok_2023 ''year'' = Num 2023"
  "bedok_2023 ''resale_price'' = Num 450000" "bedok_2023 ''floor_area_sqm'' = Num 65"
  "tampines_2022 ''town'' = Str ''TAMPINES''" "tampines_2022 ''year'' = Num 2022"
  "tampines_2022 ''resale_price'' = Num 380000" "tampines_2022 ''floor_area_sqm'' = Num 68"
  by (simp_all add: bedok_2023_def tampines_2022_def record_row_def)

lemma rows_head: "\<exists>m. rows (head n df) = take m (rows df)"
  by (auto simp: head_def)

lemma subseq_rows_head: "subseq (rows (head n df)) (rows df)"
proof -
  from rows_head obtain m where "rows (head n df) = take m (rows df)" ..
  then show ?thesis by (simp add: prefix_imp_subseq take_is_prefix)
qed

lemma view_dataset_Inr:
  assumes "view_dataset ctl clean_df = Inr (w, v)"
  shows "''town'' \<in> set (columns clean_df) \<and>
         (\<exists>filtered_df.
            town_filter (selected_towns ctl) (head (records_to_analyze ctl) clean_df) =
              Inr filtered_df \<and>
            year_filter clean_df (year_range ctl) filtered_df = Inr (w, v))"
  using assms
  by (auto simp: view_dataset_def Let_def bind_result_Inr_iff getitem_def columns_head
      split: if_splits)

lemma town_filter_rows:
  assumes "town_filter selected df = Inr filtered_df"
  shows "columns filtered_df = columns df"
    and "rows filtered_df =
         (if selected \<noteq> [] then filter (\<lambda>r. r ''town'' \<in> set selected) (rows df) else rows df)"
  using assms
  by (auto simp: town_filter_def bind_result_Inr_iff getitem_def columns_boolean_index
      rows_boolean_index_map split: if_splits)

lemma fold_min_le: "fold min vs v \<le> (v::rat)"
proof (induction vs arbitrary: v)
  case Nil
  show ?case by simp
next
  case (Cons a vs)
  have "fold min vs (min a v) \<le> min a v" by (rule Cons.IH)
  then show ?case by simp
qed

lemma fold_max_ge: "(v::rat) \<le> fold max vs v"
proof (induction vs arbitrary: v)
  case Nil
  show ?case by simp
next
  case (Cons a vs)
  have "max a v \<le> fold max vs (max a v)" by (rule Cons.IH)
  then show ?case by simp
qed

lemma py_int_mono:
  assumes "py_int (Num x) = Inr lo" and "py_int (Num y) = Inr hi" and "x \<le> y"
  shows "lo \<le> hi"
proof -
  consider "0 \<le> x" | "x < 0" "0 \<le> y" | "x < 0" "y < 0" by linarith
  then show ?thesis
  proof cases
    case 1
    with assms show ?thesis by (auto simp: floor_mono)
  next
    case 2
    then have "\<lceil>x\<rceil> \<le> 0" "0 \<le> \<lfloor>y\<rfloor>" by (simp_all add: ceiling_le_zero)
    with 2 assms show ?thesis by auto
  next
    case 3
    with assms show ?thesis by (auto simp: ceiling_mono)
  qed
qed

lemma year_bounds_ordered:
  assumes "year_bounds df = Inr (lo, hi)"
  shows "lo \<le> hi"
proof -
  let ?ys = "column_values df ''year''"
  from assms obtain a b where a: "series_min ?ys = Inr a" "py_int a = Inr lo"
    and b: "series_max ?ys = Inr b" "py_int b = Inr hi"
    by (auto simp: year_bounds_def bind_result_Inr_iff getitem_def split: if_splits)
  from a(2) obtain x where x: "a = Num x" by (cases a) simp_all
  from b(2) obtain y where y: "b = Num y" by (cases b) simp_all
  from a(1) x obtain v vs where vs: "numbers ?ys = v # vs" and xv: "x = fold min vs v"
    by (auto simp: series_min_def split: if_splits list.splits)
  from b(1) y vs have yv: "y = fold max vs v"
    by (auto simp: series_max_def split: if_splits list.splits)
  have "x \<le> y"
    unfolding xv yv using fold_min_le [of vs v] fold_max_ge [of v vs] by simp
  with a(2) b(2) x y show ?thesis
    by (auto intro: py_int_mono)
qed

lemma year_filter_cases:
  assumes "year_filter clean_df chosen filtered_df = Inr (w, v)"
  shows "(''year'' \<notin> set (columns clean_df) \<longrightarrow> w = NoYearWidget \<and> v = filtered_df) \<and>
         (''year'' \<in> set (columns clean_df) \<longrightarrow>
            (\<exists>lo hi. year_bounds filtered_df = Inr (lo, hi) \<and> lo \<le> hi \<and>
               (lo = hi \<longrightarrow> w = YearInfo lo \<and> v = filtered_df) \<and>
               (lo \<noteq> hi \<longrightarrow> w = YearSlider lo hi \<and> columns v = columns filtered_df \<and>
                  rows v = filter (\<lambda>r. year_between chosen (r ''year'')) (rows filtered_df))))"
proof (cases "''year'' \<in> set (columns clean_df)")
  case False
  with assms show ?thesis by (simp add: year_filter_def)
next
  case True
  with assms obtain lo hi where yb: "year_bounds filtered_df = Inr (lo, hi)"
    and res: "(if lo < hi
               then Inr (YearSlider lo hi,
                      boolean_index filtered_df
                        (map (year_between chosen) (column_values filtered_df ''year'')))
               else Inr (YearInfo lo, filtered_df)) = (Inr (w, v) :: py_error + _)"
    by (auto simp: year_filter_def bind_result_Inr_iff)
  note ord = year_bounds_ordered [OF yb]
  have eq: "w = YearInfo lo \<and> v = filtered_df" if "lo = hi"
    using res that by simp
  have ne: "w = YearSlider lo hi \<and> columns v = columns filtered_df \<and>
      rows v = filter (\<lambda>r. year_between chosen (r ''year'')) (rows filtered_df)" if "lo \<noteq> hi"
  proof -
    from that ord have "lo < hi" by simp
    with res have "w = YearSlider lo hi"
      and "v = boolean_index filtered_df
                 (map (year_between chosen) (column_values filtered_df ''year''))"
      by simp_all
    then show ?thesis
      by (simp add: columns_boolean_index rows_boolean_index_map)
  qed
  from True yb ord eq ne show ?thesis by blast
qed

lemma year_filter_subseq:
  assumes "year_filter clean_df chosen filtered_df = Inr (w, v)"
  shows "subseq (rows v) (rows filtered_df) \<and> columns v = columns filtered_df"
proof (cases "''year'' \<in> set (columns clean_df)")
  case False
  with year_filter_cases [OF assms] show ?thesis by simp
next
  case True
  with year_filter_cases [OF assms] obtain lo hi where
    c: "lo = hi \<longrightarrow> w = YearInfo lo \<and> v = filtered_df"
       "lo \<noteq> hi \<longrightarrow> w = YearSlider lo hi \<and> columns v = columns filtered_df \<and>
          rows v = filter (\<lambda>r. year_between chosen (r ''year'')) (rows filtered_df)"
    by blast
  show ?thesis
  proof (cases "lo = hi")
    case True
    with c show ?thesis by simp
  next
    case False
    with c show ?thesis by simp
  qed
qed

lemma view_dataset_subseq:
  assumes "view_dataset ctl clean_df = Inr (w, v)"
  shows "subseq (rows v) (rows clean_df)" and "columns v = columns clean_df"
proof -
  from view_dataset_Inr [OF assms] obtain filtered_df where
    tf: "town_filter (selected_towns ctl) (head (records_to_analyze ctl) clean_df) =
           Inr filtered_df"
    and yf: "year_filter clean_df (year_range ctl) filtered_df = Inr (w, v)"
    by blast
  note t = town_filter_rows [OF tf]
  note y = year_filter_subseq [OF yf]
  from t(2) have "subseq (rows filtered_df) (rows (head (records_to_analyze ctl) clean_df))"
    by (simp split: if_splits)
  with y have "subseq (rows v) (rows (head (records_to_analyze ctl) clean_df))"
    by (blast intro: subseq_order.order_trans)
  then show "subseq (rows v) (rows clean_df)"
    using subseq_rows_head by (blast intro: subseq_order.order_trans)
  from y t(1) show "columns v = columns clean_df"
    by (simp add: columns_head)
qed

section \<open>The example, filtered\<close>

lemmas view_defs =
  view_dataset_def Let_def head_def getitem_def column_values_def town_options_def
  town_filter_def boolean_index_def year_filter_def year_bounds_def series_min_def
  series_max_def bind_result_def

lemma cleaned_scenario_bounds: "year_bounds cleaned_scenario = Inr (2022, 2023)"
  by (simp add: view_defs cleaned_scenario_def scenario_cells)

lemma cleaned_scenario_bedok:
  "view_dataset \<lparr>records_to_analyze = 2, selected_towns = [Str ''BEDOK''],
       year_range = (2022, 2023)\<rparr> cleaned_scenario = Inr (YearInfo 2023, bedok_view)"
  by (simp add: view_defs cleaned_scenario_def bedok_view_def scenario_cells)

lemma cleaned_scenario_2023:
  "view_dataset \<lparr>records_to_analyze = 2, selected_towns = [], year_range = (2023, 2023)\<rparr>
     cleaned_scenario = Inr (YearSlider 2022 2023, bedok_view)"
  by (simp add: view_defs cleaned_scenario_def bedok_view_def scenario_cells)

lemma cleaned_scenario_yishun:
  "view_dataset \<lparr>records_to_analyze = 2, selected_towns = [Str ''YISHUN''],
       year_range = (2022, 2023)\<rparr> cleaned_scenario = Inl ValueError"
  by (simp add: view_defs cleaned_scenario_def scenario_cells)

lemma clean_unpriced:
  "clean_data sample_pandas (Some unpriced) =
     Inr (Some \<lparr>columns = [''town'', ''flat_type'', ''month'', ''resale_price'',
                            ''floor_area_sqm'', ''year''],
                 rows = []\<rparr>)"
proof -
  have "\<exists>df'. clean_data sample_pandas (Some unpriced) = Inr (Some df')"
  proof (rule clean_data_succeeds)
    show "''resale_price'' \<in> set (columns unpriced)"
      by (simp add: unpriced_def)
    fix r assume "r \<in> set (rows unpriced)"
    then have "r ''month'' = Str ''2023-06''"
      by (simp add: unpriced_def record_row_def)
    then show "\<exists>d. to_datetime sample_pandas (r ''month'') = Inr d"
      by (simp add: sample_readers)
  qed
  then obtain df' where ok: "clean_data sample_pandas (Some unpriced) = Inr (Some df')" ..
  have "filter (\<lambda>r. r ''resale_price'' \<noteq> Missing)
      (map (clean_row sample_pandas (columns unpriced)) (rows unpriced)) = []"
    by (simp add: unpriced_def clean_row_price record_row_def sample_readers)
  with clean_data_total [OF ok] have "df' =
      \<lparr>columns = [''town'', ''flat_type'', ''month'', ''resale_price'', ''floor_area_sqm'',
                  ''year''], rows = []\<rparr>"
    by (simp add: unpriced_def)
  with ok show ?thesis by simp
qed

section \<open>An empty view\<close>

text \<open>
  Where the run reaches the test \<^verbatim>\<open>filtered_df.empty\<close> with an empty table, it ends in the
  "no data" outcome.
\<close>

lemma run_dashboard_no_data:
  assumes "\<not> empty df" and "clean_data P (Some df) = Inr (Some clean_df)"
    and "view_dataset ctl clean_df = Inr (w, filtered_df)" and "empty filtered_df"
  shows "run_dashboard P ctl (Some df) = Inr NoData"
  using assms by (simp add: run_dashboard_def bind_result_def del: clean_data.simps)

text \<open>
  C2. The claim is that every choice of filters that makes the view empty ends in the "no data"
  outcome, without an error. The code reads the smallest and the largest year of
  \<^verbatim>\<open>filtered_df\<close> (line 104) before it tests \<^verbatim>\<open>filtered_df.empty\<close> (line 115): on a table
  with a year column and no row, \<^verbatim>\<open>min()\<close> is \<^verbatim>\<open>NaN\<close> and \<^verbatim>\<open>int(NaN)\<close> raises
  ValueError. So a raw table whose only record has a price that is not a number, which cleans
  to a table without rows, ends in ValueError for every sample size, with no town selected;
  and so does the claim's own example, a town selection that matches no row of the sample.
\<close>

theorem run_dashboard_empty_view_raises:
  "run_dashboard sample_pandas
     \<lparr>records_to_analyze = k, selected_towns = [], year_range = chosen\<rparr> (Some unpriced) =
     Inl ValueError \<and>
   run_dashboard sample_pandas
     \<lparr>records_to_analyze = 2, selected_towns = [Str ''YISHUN''], year_range = (2022, 2023)\<rparr>
     (Some scenario) = Inl ValueError"
proof
  have ne: "\<not> empty unpriced"
    by (simp add: empty_def unpriced_def)
  have "view_dataset \<lparr>records_to_analyze = k, selected_towns = [], year_range = chosen\<rparr>
      \<lparr>columns = [''town'', ''flat_type'', ''month'', ''resale_price'', ''floor_area_sqm'',
                  ''year''], rows = []\<rparr> = Inl ValueError"
    by (simp add: view_defs)
  with ne show "run_dashboard sample_pandas
      \<lparr>records_to_analyze = k, selected_towns = [], year_range = chosen\<rparr> (Some unpriced) =
      Inl ValueError"
    by (simp add: run_dashboard_def clean_unpriced bind_result_def del: clean_data.simps)
next
  have ne: "\<not> empty scenario"
    by (simp add: empty_def scenario_def)
  with cleaned_scenario_yishun show "run_dashboard sample_pandas
      \<lparr>records_to_analyze = 2, selected_towns = [Str ''YISHUN''], year_range = (2022, 2023)\<rparr>
      (Some scenario) = Inl ValueError"
    by (simp add: run_dashboard_def clean_scenario bind_result_def del: clean_data.simps)
qed

section \<open>The year control\<close>

text \<open>
  The claim C1 says that the year slider is left out exactly when the smallest and the largest
  year of the cleaned table are equal, so that the decision depends on the cleaned table only.
  The code takes both years from \<^verbatim>\<open>filtered_df\<close>, the sampled and town-filtered table: the
  cleaned example spans 2022 to 2023, and with BEDOK selected the run shows the information line
  for 2023 and no slider.
\<close>

theorem year_control_counterexample:
  "year_bounds cleaned_scenario = Inr (2022, 2023) \<and>
   view_dataset \<lparr>records_to_analyze = 2, selected_towns = [Str ''BEDOK''],
       year_range = (2022, 2023)\<rparr> cleaned_scenario = Inr (YearInfo 2023, bedok_view)"
  using cleaned_scenario_bounds cleaned_scenario_bedok by (intro conjI)

text \<open>
  C1, as the code has it. The year filter is applied only if the cleaned table has a year
  column. With one, the decision is a function of the sampled and town-filtered table: its
  smallest year is at most its largest; when the two are equal the run shows the information
  line and leaves the table as it is, and when they differ it draws the slider over these two
  years and keeps the rows whose year lies in the chosen range, both ends included.
\<close>

theorem year_control_decision:
  assumes "view_dataset ctl clean_df = Inr (w, v)"
  shows "\<exists>filtered_df.
           town_filter (selected_towns ctl) (head (records_to_analyze ctl) clean_df) =
             Inr filtered_df \<and>
           (''year'' \<notin> set (columns clean_df) \<longrightarrow> w = NoYearWidget \<and> v = filtered_df) \<and>
           (''year'' \<in> set (columns clean_df) \<longrightarrow>
              (\<exists>lo hi. year_bounds filtered_df = Inr (lo, hi) \<and> lo \<le> hi \<and>
                 (lo = hi \<longrightarrow> w = YearInfo lo \<and> v = filtered_df) \<and>
                 (lo \<noteq> hi \<longrightarrow> w = YearSlider lo hi \<and> columns v = columns filtered_df \<and>
                    rows v = filter (\<lambda>r. year_between (year_range ctl) (r ''year''))
                               (rows filtered_df))))"
proof -
  from view_dataset_Inr [OF assms] obtain filtered_df where
    tf: "town_filter (selected_towns ctl) (head (records_to_analyze ctl) clean_df) =
           Inr filtered_df"
    and yf: "year_filter clean_df (year_range ctl) filtered_df = Inr (w, v)"
    by blast
  note c = year_filter_cases [OF yf]
  from tf c [THEN conjunct1] c [THEN conjunct2] show ?thesis
    by (intro exI [of _ filtered_df] conjI)
qed

theorem year_control_decision_witness:
  "view_dataset \<lparr>records_to_analyze = 2, selected_towns = [], year_range = (2023, 2023)\<rparr>
     cleaned_scenario = Inr (YearSlider 2022 2023, bedok_view) \<and>
   ''year'' \<in> set (columns cleaned_scenario) \<and>
   (\<exists>filtered_df.
      town_filter [] (head 2 cleaned_scenario) = Inr filtered_df \<and>
      year_bounds filtered_df = Inr (2022, 2023) \<and>
      rows bedok_view = filter (\<lambda>r. year_between (2023, 2023) (r ''year'')) (rows filtered_df))"
proof -
  let ?ctl = "\<lparr>records_to_analyze = 2, selected_towns = [], year_range = (2023, 2023)\<rparr>"
  have y: "''year'' \<in> set (columns cleaned_scenario)"
    by (simp add: cleaned_scenario_def)
  from year_control_decision [OF cleaned_scenario_2023]
  obtain filtered_df where
    tf: "town_filter (selected_towns ?ctl) (head (records_to_analyze ?ctl) cleaned_scenario) =
           Inr filtered_df"
    and yy: "''year'' \<in> set (columns cleaned_scenario) \<longrightarrow>
      (\<exists>lo hi. year_bounds filtered_df = Inr (lo, hi) \<and> lo \<le> hi \<and>
         (lo = hi \<longrightarrow> YearSlider 2022 2023 = YearInfo lo \<and> bedok_view = filtered_df) \<and>
         (lo \<noteq> hi \<longrightarrow> YearSlider 2022 2023 = YearSlider lo hi \<and>
            columns bedok_view = columns filtered_df \<and>
            rows bedok_view = filter (\<lambda>r. year_between (year_range ?ctl) (r ''year''))
                                (rows filtered_df)))"
    by (elim exE conjE)
  from yy y obtain lo hi where
    yb: "year_bounds filtered_df = Inr (lo, hi)"
    and eq: "lo = hi \<longrightarrow> YearSlider 2022 2023 = YearInfo lo \<and> bedok_view = filtered_df"
    and ne: "lo \<noteq> hi \<longrightarrow> YearSlider 2022 2023 = YearSlider lo hi \<and>
               columns bedok_view = columns filtered_df \<and>
               rows bedok_view = filter (\<lambda>r. year_between (year_range ?ctl) (r ''year''))
                                   (rows filtered_df)"
    by blast
  from eq have "lo \<noteq> hi" by auto
  with ne have "lo = 2022" "hi = 2023"
    and "rows bedok_view = filter (\<lambda>r. year_between (2023, 2023) (r ''year'')) (rows filtered_df)"
    by simp_all
  with tf yb have "\<exists>filtered_df.
      town_filter [] (head 2 cleaned_scenario) = Inr filtered_df \<and>
      year_bounds filtered_df = Inr (2022, 2023) \<and>
      rows bedok_view = filter (\<lambda>r. year_between (2023, 2023) (r ''year'')) (rows filtered_df)"
    by (intro exI [of _ filtered_df]) simp
  with cleaned_scenario_2023 y show ?thesis by (intro conjI)
qed

section \<open>Fields the cleaner and the filters leave alone\<close>

text \<open>
  C9. For every row that survives cleaning and filtering, every field outside
  \<^verbatim>\<open>resale_price\<close>, \<^verbatim>\<open>floor_area_sqm\<close>, \<^verbatim>\<open>month\<close> and \<^verbatim>\<open>year\<close> is as it was in the
  raw table: outside these four columns the rows of the cleaned table are the raw rows whose
  price reads as a number, in their order; the cleaner adds no column but \<^verbatim>\<open>year\<close> and
  removes none; and the view is a subsequence of the cleaned rows, each row unchanged, under
  the same columns.
\<close>

theorem passthrough_fields_preserved:
  assumes "clean_data P (Some df) = Inr (Some clean_df)"
    and "view_dataset ctl clean_df = Inr (w, filtered_df)"
  shows "map passthrough (rows clean_df) =
           map passthrough (filter (\<lambda>r. to_numeric P (r ''resale_price'') \<noteq> Missing) (rows df)) \<and>
         set (columns df) \<subseteq> set (columns clean_df) \<and>
         set (columns clean_df) \<subseteq> insert ''year'' (set (columns df)) \<and>
         subseq (rows filtered_df) (rows clean_df) \<and>
         columns filtered_df = columns clean_df"
proof -
  note facts = clean_data_rows [OF assms(1)]
  have "rows clean_df = map (clean_row P (columns df))
      (filter (\<lambda>r. to_numeric P (r ''resale_price'') \<noteq> Missing) (rows df))"
    using facts(1,2) by (simp add: filter_map comp_def clean_row_price)
  then have pass: "map passthrough (rows clean_df) =
      map passthrough (filter (\<lambda>r. to_numeric P (r ''resale_price'') \<noteq> Missing) (rows df))"
    by (simp add: comp_def clean_row_passthrough)
  from facts(3) have cols: "set (columns df) \<subseteq> set (columns clean_df)"
    "set (columns clean_df) \<subseteq> insert ''year'' (set (columns df))"
    by (auto split: if_splits)
  from pass cols view_dataset_subseq [OF assms(2)] show ?thesis
    by (intro conjI)
qed

theorem passthrough_fields_preserved_witness:
  "clean_data sample_pandas (Some scenario) = Inr (Some cleaned_scenario) \<and>
   view_dataset \<lparr>records_to_analyze = 2, selected_towns = [Str ''BEDOK''],
       year_range = (2022, 2023)\<rparr> cleaned_scenario = Inr (YearInfo 2023, bedok_view) \<and>
   map passthrough (rows cleaned_scenario) =
     map passthrough
       (filter (\<lambda>r. to_numeric sample_pandas (r ''resale_price'') \<noteq> Missing) (rows scenario)) \<and>
   subseq (rows bedok_view) (rows cleaned_scenario) \<and>
   map (\<lambda>r. passthrough r ''flat_type'') (rows bedok_view) = [Str ''3 ROOM'']"
proof -
  note th = passthrough_fields_preserved [OF clean_scenario cleaned_scenario_bedok]
  from th have p: "map passthrough (rows cleaned_scenario) =
      map passthrough
        (filter (\<lambda>r. to_numeric sample_pandas (r ''resale_price'') \<noteq> Missing) (rows scenario))"
    by (rule conjunct1)
  from th have s: "subseq (rows bedok_view) (rows cleaned_scenario)"
    by (elim conjE)
  have f: "map (\<lambda>r. passthrough r ''flat_type'') (rows bedok_view) = [Str ''3 ROOM'']"
    by (simp add: bedok_view_def passthrough_def core_columns_def bedok_2023_def record_row_def)
  from clean_scenario cleaned_scenario_bedok p s f show ?thesis
    by (intro conjI)
qed

end
